theory Spec2Isabelle
  imports Complex_Main
begin

section \<open>The FSRS scheduler of chess\_client\<close>

text \<open>
  A shallow embedding of the spaced-repetition code in \<^verbatim>\<open>chess_client/models.py\<close>
  and \<^verbatim>\<open>chess_client/views.py\<close>.

  Conventions of the embedding:
  \<^item> Python floats are modelled as the real numbers: rounding, overflow and underflow of
    IEEE doubles are not part of the model. In particular \<^verbatim>\<open>math.exp\<close> is the total
    function \<open>exp\<close>: its OverflowError, for an argument above about 709.78, can only
    be met when \<^verbatim>\<open>-elapsed_days / stability\<close> is positive, that is with the clock
    behind the last review or a negative stability.
  \<^item> A timestamp is a real number of days since a fixed epoch, so the source's
    \<^verbatim>\<open>(now - t).total_seconds() / (24 * 3600)\<close> is \<open>now - t\<close> and
    \<^verbatim>\<open>now + timedelta(days=d)\<close> is \<open>now + d\<close>: the rounding of a
    \<^verbatim>\<open>timedelta\<close> to whole microseconds is not part of the model. Every call of
    \<^verbatim>\<open>timezone.now()\<close> within one operation reads the same value \<open>now\<close>, which is
    an argument of the operation.
  \<^item> Exceptions raised by the Python runtime are values of \<open>py_error\<close>; a function that
    may raise returns \<open>py_error + 'a\<close>. \<open>DatabaseError\<close> stands for whatever the
    database layer raises at a write or a query it refuses.
  \<^item> The database settings are not among the sources. What depends on them is a
    parameter: the range of an integer column (\<open>db_backend\<close>), and the order in which
    a query that asks for no order returns its rows (a function on the list of rows).
\<close>

subsection \<open>Runtime errors and dictionaries\<close>

datatype py_error = ZeroDivisionError | ValueError | KeyError | DatabaseError

text \<open>\<^verbatim>\<open>d.get(k, default)\<close> and \<^verbatim>\<open>d[k]\<close> on a dictionary.\<close>

definition dict_get :: "('k \<rightharpoonup> 'v) \<Rightarrow> 'k \<Rightarrow> 'v \<Rightarrow> 'v" where
  "dict_get d k dflt = (case d k of Some v \<Rightarrow> v | None \<Rightarrow> dflt)"

definition dict_item :: "('k \<rightharpoonup> 'v) \<Rightarrow> 'k \<Rightarrow> py_error + 'v" where
  "dict_item d k = (case d k of Some v \<Rightarrow> Inr v | None \<Rightarrow> Inl KeyError)"

text \<open>\<^verbatim>\<open>math.sqrt\<close> and \<^verbatim>\<open>math.log\<close> raise ValueError outside their domain;
  float division raises ZeroDivisionError on a zero divisor.\<close>

definition math_sqrt :: "real \<Rightarrow> py_error + real" where
  "math_sqrt x = (if x < 0 then Inl ValueError else Inr (sqrt x))"

definition math_log :: "real \<Rightarrow> py_error + real" where
  "math_log x = (if x \<le> 0 then Inl ValueError else Inr (ln x))"

definition float_div :: "real \<Rightarrow> real \<Rightarrow> py_error + real" where
  "float_div a b = (if b = 0 then Inl ZeroDivisionError else Inr (a / b))"

subsection \<open>Models (models.py)\<close>

record Puzzle =
  puzzle_pk :: string
  puzzle_owner :: string

record PuzzleAttempt =
  attempt_puzzle :: string
  attempt_player :: string
  attempt_number :: int
  tries_count :: int
  hint_used :: bool
  solved :: bool
  rating :: "int option"
  created_at :: real
  completed_at :: "real option"

record FSRSMemory =
  player_username :: string
  puzzle_id :: string
  difficulty :: real
  stability :: real
  last_review_date :: "real option"
  next_review_date :: "real option"
  updated_at :: real

record UserDailyProgress =
  progress_player :: string
  progress_date :: int
  new_puzzles_seen :: int
  reviews_done :: int

text \<open>\<^verbatim>\<open>PuzzleAttempt.determine_rating\<close> (models.py, lines 98-107).\<close>

definition determine_rating :: "PuzzleAttempt \<Rightarrow> int" where
  "determine_rating self =
     (if \<not> solved self then 1
      else if tries_count self > 2 \<or> hint_used self then 2
      else if tries_count self > 0 then 3
      else 4)"

text \<open>\<^verbatim>\<open>UserDailyProgress.total_puzzles_done\<close>.\<close>

definition total_puzzles_done :: "UserDailyProgress \<Rightarrow> int" where
  "total_puzzles_done p = new_puzzles_seen p + reviews_done p"

subsection \<open>FSRSMemoryService (views.py, lines 1208-1310)\<close>

definition initial_stability :: "int \<rightharpoonup> real" where
  "initial_stability = [1 \<mapsto> 0.5, 2 \<mapsto> 1.2, 3 \<mapsto> 3.0, 4 \<mapsto> 7.0]"

definition stability_multiplier :: "int \<rightharpoonup> real" where
  "stability_multiplier = [1 \<mapsto> 0.2, 2 \<mapsto> 1.1, 3 \<mapsto> 1.5, 4 \<mapsto> 2.0]"

definition difficulty_adjustment :: "int \<rightharpoonup> real" where
  "difficulty_adjustment = [1 \<mapsto> 0.1, 2 \<mapsto> 0.05, 3 \<mapsto> - 0.05, 4 \<mapsto> - 0.1]"

definition desired_retention :: real where
  "desired_retention = 0.9"

definition tries_penalty :: real where
  "tries_penalty = 0.1"

definition hint_penalty :: real where
  "hint_penalty = 0.2"

text \<open>\<^verbatim>\<open>calculate_retrievability(stability, elapsed_days)\<close>:
  \<^verbatim>\<open>math.exp(-elapsed_days / stability)\<close>.\<close>

definition calculate_retrievability :: "real \<Rightarrow> real \<Rightarrow> py_error + real" where
  "calculate_retrievability stab elapsed_days =
     (case float_div (- elapsed_days) stab of
        Inl e \<Rightarrow> Inl e
      | Inr q \<Rightarrow> Inr (exp q))"

text \<open>\<^verbatim>\<open>calculate_next_interval(stability, desired_retention)\<close>:
  \<^verbatim>\<open>-stability * math.log(desired_retention)\<close>.\<close>

definition calculate_next_interval :: "real \<Rightarrow> real \<Rightarrow> py_error + real" where
  "calculate_next_interval stab retention =
     (case math_log retention of
        Inl e \<Rightarrow> Inl e
      | Inr l \<Rightarrow> Inr (- stab * l))"

text \<open>The first block of \<^verbatim>\<open>update_memory\<close> (lines 1261-1269): the elapsed days, and
  on a first review the initial stability. The retrievability is computed and dropped,
  but its division can raise.\<close>

definition elapsed_and_init :: "real \<Rightarrow> FSRSMemory \<Rightarrow> int \<Rightarrow> py_error + (real \<times> FSRSMemory)" where
  "elapsed_and_init now memory rt =
     (case last_review_date memory of
        Some t \<Rightarrow>
          (let elapsed_days = now - t in
           case calculate_retrievability (stability memory) elapsed_days of
             Inl e \<Rightarrow> Inl e
           | Inr retrievability \<Rightarrow> Inr (elapsed_days, memory))
      | None \<Rightarrow> Inr (0, memory\<lparr>stability := dict_get initial_stability rt 1.0\<rparr>))"

text \<open>The difficulty update (lines 1271-1282).\<close>

definition update_difficulty :: "FSRSMemory \<Rightarrow> int \<Rightarrow> int \<Rightarrow> bool \<Rightarrow> FSRSMemory" where
  "update_difficulty memory rt tries hint =
     (let m1 = memory\<lparr>difficulty := difficulty memory + dict_get difficulty_adjustment rt 0\<rparr>;
          m2 = (if tries > 0
                then m1\<lparr>difficulty := difficulty m1 + tries_penalty * real_of_int (min tries 3)\<rparr>
                else m1);
          m3 = (if hint then m2\<lparr>difficulty := difficulty m2 + hint_penalty\<rparr> else m2)
      in m3\<lparr>difficulty := max 1.0 (min 3.0 (difficulty m3))\<rparr>)"

text \<open>The stability update (lines 1284-1297). The test \<^verbatim>\<open>if memory.last_review_date\<close>
  reads the field before this call has overwritten it.\<close>

definition update_stability :: "FSRSMemory \<Rightarrow> int \<Rightarrow> real \<Rightarrow> py_error + FSRSMemory" where
  "update_stability memory rt elapsed_days =
     (if last_review_date memory \<noteq> None then
        (if rt = 1 then
           (case dict_item stability_multiplier 1 of
              Inl e \<Rightarrow> Inl e
            | Inr k \<Rightarrow> Inr (memory\<lparr>stability := stability memory * k\<rparr>))
         else
           (let stability_mult = dict_get stability_multiplier rt 1.5 in
            case math_sqrt (elapsed_days / max (stability memory) 0.1) of
              Inl e \<Rightarrow> Inl e
            | Inr sq \<Rightarrow>
                (let spacing_multiplier = min 2.0 sq
                 in Inr (memory\<lparr>stability := stability memory * (stability_mult * spacing_multiplier)\<rparr>))))
      else Inr memory)"

text \<open>The scheduling block (lines 1299-1305).\<close>

definition schedule :: "real \<Rightarrow> FSRSMemory \<Rightarrow> py_error + FSRSMemory" where
  "schedule now memory =
     (case calculate_next_interval (stability memory) desired_retention of
        Inl e \<Rightarrow> Inl e
      | Inr next_interval \<Rightarrow>
          Inr (memory\<lparr>next_review_date := Some (now + next_interval),
                      last_review_date := Some now,
                      updated_at := now\<rparr>))"

text \<open>\<^verbatim>\<open>FSRSMemoryService.update_memory(memory, rating, solved, tries_count, hint_used)\<close>.
  The result is the memory object as it is passed to \<^verbatim>\<open>memory.save()\<close>; the caller's
  model writes it to the store.\<close>

definition update_memory ::
  "real \<Rightarrow> FSRSMemory \<Rightarrow> int \<Rightarrow> bool \<Rightarrow> int \<Rightarrow> bool \<Rightarrow> py_error + FSRSMemory" where
  "update_memory now memory rt slv tries hint =
     (case elapsed_and_init now memory rt of
        Inl e \<Rightarrow> Inl e
      | Inr (elapsed_days, m1) \<Rightarrow>
          (case update_stability (update_difficulty m1 rt tries hint) rt elapsed_days of
             Inl e \<Rightarrow> Inl e
           | Inr m2 \<Rightarrow> schedule now m2))"

subsection \<open>FSRSMemory methods (models.py, lines 126-212)\<close>

text \<open>\<^verbatim>\<open>FSRSMemory.calculate_retrievability(self)\<close>: a memory never reviewed has
  retrievability 1.0; otherwise the clock is read and the decay is computed.\<close>

definition FSRSMemory_calculate_retrievability :: "real \<Rightarrow> FSRSMemory \<Rightarrow> py_error + real" where
  "FSRSMemory_calculate_retrievability now self =
     (case last_review_date self of
        None \<Rightarrow> Inr 1.0
      | Some t \<Rightarrow>
          (let elapsed_days = now - t in
           case float_div (- elapsed_days) (stability self) of
             Inl e \<Rightarrow> Inl e
           | Inr q \<Rightarrow> Inr (exp q)))"

text \<open>\<^verbatim>\<open>FSRSMemory.calculate_next_interval(self, desired_retention=0.9)\<close>.\<close>

definition FSRSMemory_calculate_next_interval :: "FSRSMemory \<Rightarrow> real \<Rightarrow> py_error + real" where
  "FSRSMemory_calculate_next_interval self retention =
     (case math_log retention of
        Inl e \<Rightarrow> Inl e
      | Inr l \<Rightarrow> Inr (- stability self * l))"

text \<open>
  \<^verbatim>\<open>FSRSMemory.update_memory(self, rating, solved, tries_count, hint_used)\<close>
  (lines 138-212), block by block as the service above. The method keeps its own copies
  of the tables in local dictionaries and writes the penalties as literals.
\<close>

definition stability_multipliers :: "int \<rightharpoonup> real" where
  "stability_multipliers = [1 \<mapsto> 0.2, 2 \<mapsto> 1.1, 3 \<mapsto> 1.5, 4 \<mapsto> 2.0]"

definition difficulty_adjustments :: "int \<rightharpoonup> real" where
  "difficulty_adjustments = [1 \<mapsto> 0.1, 2 \<mapsto> 0.05, 3 \<mapsto> - 0.05, 4 \<mapsto> - 0.1]"

text \<open>Lines 157-171.\<close>

definition FSRSMemory_elapsed_and_init ::
  "real \<Rightarrow> FSRSMemory \<Rightarrow> int \<Rightarrow> py_error + (real \<times> FSRSMemory)" where
  "FSRSMemory_elapsed_and_init now self rt =
     (case last_review_date self of
        Some t \<Rightarrow>
          (let elapsed_days = now - t in
           case FSRSMemory_calculate_retrievability now self of
             Inl e \<Rightarrow> Inl e
           | Inr retrievability \<Rightarrow> Inr (elapsed_days, self))
      | None \<Rightarrow>
          (let initial = [1 \<mapsto> 0.5, 2 \<mapsto> 1.2, 3 \<mapsto> 3.0, 4 \<mapsto> (7.0::real)]
           in Inr (0, self\<lparr>stability := dict_get initial rt 1.0\<rparr>)))"

text \<open>Lines 173-184.\<close>

definition FSRSMemory_update_difficulty :: "FSRSMemory \<Rightarrow> int \<Rightarrow> int \<Rightarrow> bool \<Rightarrow> FSRSMemory" where
  "FSRSMemory_update_difficulty self rt tries hint =
     (let s1 = self\<lparr>difficulty := difficulty self + dict_get difficulty_adjustments rt 0\<rparr>;
          s2 = (if tries > 0
                then s1\<lparr>difficulty := difficulty s1 + 0.1 * real_of_int (min tries 3)\<rparr>
                else s1);
          s3 = (if hint then s2\<lparr>difficulty := difficulty s2 + 0.2\<rparr> else s2)
      in s3\<lparr>difficulty := max 1.0 (min 3.0 (difficulty s3))\<rparr>)"

text \<open>Lines 186-199.\<close>

definition FSRSMemory_update_stability :: "FSRSMemory \<Rightarrow> int \<Rightarrow> real \<Rightarrow> py_error + FSRSMemory" where
  "FSRSMemory_update_stability self rt elapsed_days =
     (if last_review_date self \<noteq> None then
        (if rt = 1 then
           (case dict_item stability_multipliers 1 of
              Inl e \<Rightarrow> Inl e
            | Inr k \<Rightarrow> Inr (self\<lparr>stability := stability self * k\<rparr>))
         else
           (let stability_mult = dict_get stability_multipliers rt 1.5 in
            case math_sqrt (elapsed_days / max (stability self) 0.1) of
              Inl e \<Rightarrow> Inl e
            | Inr sq \<Rightarrow>
                (let spacing_multiplier = min 2.0 sq
                 in Inr (self\<lparr>stability := stability self * (stability_mult * spacing_multiplier)\<rparr>))))
      else Inr self)"

text \<open>Lines 201-207.\<close>

definition FSRSMemory_schedule :: "real \<Rightarrow> FSRSMemory \<Rightarrow> py_error + FSRSMemory" where
  "FSRSMemory_schedule now self =
     (case FSRSMemory_calculate_next_interval self 0.9 of
        Inl e \<Rightarrow> Inl e
      | Inr next_interval \<Rightarrow>
          Inr (self\<lparr>next_review_date := Some (now + next_interval),
                    last_review_date := Some now,
                    updated_at := now\<rparr>))"

definition FSRSMemory_update_memory ::
  "real \<Rightarrow> FSRSMemory \<Rightarrow> int \<Rightarrow> bool \<Rightarrow> int \<Rightarrow> bool \<Rightarrow> py_error + FSRSMemory" where
  "FSRSMemory_update_memory now self rt slv tries hint =
     (case FSRSMemory_elapsed_and_init now self rt of
        Inl e \<Rightarrow> Inl e
      | Inr (elapsed_days, s1) \<Rightarrow>
          (case FSRSMemory_update_stability (FSRSMemory_update_difficulty s1 rt tries hint)
                  rt elapsed_days of
             Inl e \<Rightarrow> Inl e
           | Inr s2 \<Rightarrow> FSRSMemory_schedule now s2))"

subsection \<open>The store\<close>

text \<open>
  The database tables the views read and write, each a list of rows. The random
  \<^verbatim>\<open>uuid4\<close> primary keys of attempts and memories are left out; a memory row is
  identified by its \<^verbatim>\<open>unique_together\<close> pair (player, puzzle).
\<close>

record db =
  players :: "string list"
  puzzles :: "Puzzle list"
  attempts :: "PuzzleAttempt list"
  memories :: "FSRSMemory list"
  daily_progress :: "UserDailyProgress list"




definition same_memory_row :: "FSRSMemory \<Rightarrow> FSRSMemory \<Rightarrow> bool" where
  "same_memory_row a b = (puzzle_id a = puzzle_id b \<and> player_username a = player_username b)"

definition save_memory :: "db \<Rightarrow> FSRSMemory \<Rightarrow> db" where
  "save_memory d m =
     (case find (same_memory_row m) (memories d) of
        None \<Rightarrow> d\<lparr>memories := memories d @ [m]\<rparr>
      | Some old \<Rightarrow>
          d\<lparr>memories := map (\<lambda>r. if same_memory_row m r then m else r) (memories d)\<rparr>)"

definition same_progress_row :: "UserDailyProgress \<Rightarrow> UserDailyProgress \<Rightarrow> bool" where
  "same_progress_row a b =
     (progress_player a = progress_player b \<and> progress_date a = progress_date b)"

definition save_progress :: "db \<Rightarrow> UserDailyProgress \<Rightarrow> db" where
  "save_progress d p =
     (case find (same_progress_row p) (daily_progress d) of
        None \<Rightarrow> d\<lparr>daily_progress := daily_progress d @ [p]\<rparr>
      | Some old \<Rightarrow>
          d\<lparr>daily_progress := map (\<lambda>r. if same_progress_row p r then p else r) (daily_progress d)\<rparr>)"

text \<open>\<^verbatim>\<open>UserDailyProgress.objects.get_or_create(player=player, date=today)\<close>.\<close>

definition get_or_create_progress :: "db \<Rightarrow> string \<Rightarrow> int \<Rightarrow> db \<times> UserDailyProgress" where
  "get_or_create_progress d player today =
     (case find (\<lambda>r. progress_player r = player \<and> progress_date r = today) (daily_progress d) of
        Some p \<Rightarrow> (d, p)
      | None \<Rightarrow>
          (let p = \<lparr>progress_player = player, progress_date = today,
                    new_puzzles_seen = 0, reviews_done = 0\<rparr>
           in (d\<lparr>daily_progress := daily_progress d @ [p]\<rparr>, p)))"

text \<open>\<^verbatim>\<open>timezone.now().date()\<close>: the day a timestamp falls in.\<close>

definition date_of :: "real \<Rightarrow> int" where
  "date_of now = \<lfloor>now\<rfloor>"

text \<open>A database row compared with \<^verbatim>\<open>next_review_date__lte=now\<close> or tested with
  \<^verbatim>\<open>memory.next_review_date and memory.next_review_date <= now\<close>: an absent date is
  never due.\<close>

definition is_due :: "real \<Rightarrow> FSRSMemory \<Rightarrow> bool" where
  "is_due now m = (case next_review_date m of None \<Rightarrow> False | Some t \<Rightarrow> t \<le> now)"

text \<open>Python's \<^verbatim>\<open>xs[:n]\<close>: a negative bound counts from the end.\<close>

definition py_prefix :: "'a list \<Rightarrow> int \<Rightarrow> 'a list" where
  "py_prefix xs n = (if 0 \<le> n then take (nat n) xs else take (length xs - nat (- n)) xs)"

subsection \<open>FSRSDuePuzzlesView.get (views.py, lines 1316-1372)\<close>

record due_entry =
  due_puzzle_id :: string
  due_retrievability :: real
  due_difficulty :: real
  due_stability :: real
  due_last_review_date :: "real option"

datatype due_response = Due_Error nat | Due_OK nat "due_entry list"

text \<open>The loop over the learner's memories (lines 1335-1356): an exception of
  \<^verbatim>\<open>calculate_retrievability\<close> leaves the loop.\<close>

fun collect_due :: "real \<Rightarrow> FSRSMemory list \<Rightarrow> py_error + due_entry list" where
  "collect_due now [] = Inr []"
| "collect_due now (memory # rest) =
     (if is_due now memory then
        (case FSRSMemory_calculate_retrievability now memory of
           Inl e \<Rightarrow> Inl e
         | Inr r \<Rightarrow>
             (case collect_due now rest of
                Inl e \<Rightarrow> Inl e
              | Inr es \<Rightarrow>
                  Inr (\<lparr>due_puzzle_id = puzzle_id memory, due_retrievability = r,
                        due_difficulty = difficulty memory, due_stability = stability memory,
                        due_last_review_date = last_review_date memory\<rparr> # es)))
      else collect_due now rest)"

text \<open>The view: 404 for an unknown player, 500 when the loop raised, else the due
  entries sorted by retrievability, lowest first (\<^verbatim>\<open>list.sort\<close> is stable, as
  \<open>sort_key\<close> is). The memories are queried without an order: \<open>memory_order\<close> is the
  order in which the database returns them.\<close>

definition due_puzzles_get ::
  "(FSRSMemory list \<Rightarrow> FSRSMemory list) \<Rightarrow> real \<Rightarrow> db \<Rightarrow> string \<Rightarrow> due_response" where
  "due_puzzles_get memory_order now d username =
     (if username \<in> set (players d) then
        (case collect_due now
                (memory_order (filter (\<lambda>m. player_username m = username) (memories d))) of
           Inl e \<Rightarrow> Due_Error 500
         | Inr due_puzzles \<Rightarrow>
             Due_OK (length due_puzzles) (sort_key due_retrievability due_puzzles))
      else Due_Error 404)"

subsection \<open>FSRSPuzzleAttemptView.post (views.py, lines 1379-1549)\<close>









text \<open>Lines 1463-1487: the memory of the pair, created with the defaults and saved
  when there is none.\<close>

definition default_memory :: "real \<Rightarrow> string \<Rightarrow> string \<Rightarrow> FSRSMemory" where
  "default_memory now pid user =
     \<lparr>player_username = user, puzzle_id = pid, difficulty = 2.0, stability = 0.5,
      last_review_date = None, next_review_date = None, updated_at = now\<rparr>"




subsection \<open>DailyPuzzlesView.get (views.py, lines 1585-1717)\<close>

text \<open>The query parameters after \<^verbatim>\<open>int(...)\<close>; an absent one takes its default.\<close>

record daily_query =
  q_new_limit :: "int option"
  q_total_limit :: "int option"
  q_per_page :: "int option"

datatype daily_response =
    Daily_Error nat
  | Daily_OK (message: "string option") (puzzles_count: "nat option")
      (response_puzzles: "(Puzzle \<times> bool) list")

definition int_or :: "int option \<Rightarrow> int \<Rightarrow> int" where
  "int_or v dflt = (case v of None \<Rightarrow> dflt | Some n \<Rightarrow> n)"

text \<open>Lines 1626-1635: the due memories ordered by \<^verbatim>\<open>next_review_date\<close>, their
  puzzle ids, and the puzzles with these ids as the \<^verbatim>\<open>id__in\<close> query returns them.
  That query asks for no order: its rows come in the order \<open>row_order\<close> that the
  database chooses.\<close>

definition due_review_puzzles ::
  "(Puzzle list \<Rightarrow> Puzzle list) \<Rightarrow> real \<Rightarrow> db \<Rightarrow> string \<Rightarrow> Puzzle list" where
  "due_review_puzzles row_order now d username =
     (let due_memories =
            sort_key (\<lambda>m. case next_review_date m of None \<Rightarrow> 0 | Some t \<Rightarrow> t)
              (filter (\<lambda>m. player_username m = username \<and> is_due now m) (memories d));
          due_puzzle_ids = map puzzle_id due_memories
      in row_order (filter (\<lambda>p. puzzle_pk p \<in> set due_puzzle_ids) (puzzles d)))"

text \<open>Lines 1637-1649: the learner's puzzles never attempted, in the random order
  \<open>shuffle\<close> of \<^verbatim>\<open>order_by('?')\<close>, cut to \<open>new_remaining\<close>. The slice is the
  \<^verbatim>\<open>LIMIT\<close> of the query, a 64-bit integer: the database refuses a larger one.\<close>

definition new_puzzles_for ::
  "(Puzzle list \<Rightarrow> Puzzle list) \<Rightarrow> db \<Rightarrow> string \<Rightarrow> int \<Rightarrow> py_error + Puzzle list" where
  "new_puzzles_for shuffle d username new_remaining =
     (let attempted_puzzle_ids =
            map attempt_puzzle (filter (\<lambda>a. attempt_player a = username) (attempts d));
          new_puzzles_query =
            shuffle (filter (\<lambda>p. puzzle_owner p = username \<and> puzzle_pk p \<notin> set attempted_puzzle_ids)
                       (puzzles d))
      in if new_remaining \<le> 9223372036854775807
         then Inr (take (nat new_remaining) new_puzzles_query)
         else Inl DatabaseError)"

text \<open>Lines 1651-1660: reviews first, then new puzzles in the room that is left.\<close>

definition combine_puzzles :: "Puzzle list \<Rightarrow> Puzzle list \<Rightarrow> int \<Rightarrow> Puzzle list" where
  "combine_puzzles due_puzzles new_puzzles total_remaining =
     (let reviews_to_use = min (int (length due_puzzles)) total_remaining;
          new_to_use = min (int (length new_puzzles)) (total_remaining - reviews_to_use)
      in py_prefix due_puzzles reviews_to_use @ py_prefix new_puzzles new_to_use)"

text \<open>The view. It runs outside any transaction: today's progress row, once created,
  stays when a later query fails and the handler answers 500.\<close>

definition daily_puzzles_get ::
  "(Puzzle list \<Rightarrow> Puzzle list) \<Rightarrow> (Puzzle list \<Rightarrow> Puzzle list) \<Rightarrow> real \<Rightarrow> db \<Rightarrow> string \<Rightarrow>
   daily_query \<Rightarrow> db \<times> daily_response" where
  "daily_puzzles_get row_order shuffle now d username q =
     (if username \<in> set (players d) then
        (case get_or_create_progress d username (date_of now) of
           (d1, progress) \<Rightarrow>
             (let new_limit = int_or (q_new_limit q) 25;
                  total_limit = int_or (q_total_limit q) 50;
                  per_page = int_or (q_per_page q) 10;
                  new_remaining = max 0 (new_limit - new_puzzles_seen progress);
                  total_remaining = max 0 (total_limit - total_puzzles_done progress)
              in
              if total_remaining \<le> 0 then
                (d1, Daily_OK (Some ''You've reached your daily puzzle limit!'') None [])
              else
                (let due_puzzles = due_review_puzzles row_order now d1 username in
                 case new_puzzles_for shuffle d1 username new_remaining of
                   Inl e \<Rightarrow> (d1, Daily_Error 500)
                 | Inr new_puzzles \<Rightarrow>
                     (let combined_puzzles =
                            combine_puzzles due_puzzles new_puzzles total_remaining;
                          puzzles_data =
                            map (\<lambda>p. (p, puzzle_pk p \<notin> set (map puzzle_pk due_puzzles)))
                              combined_puzzles
                      in (d1, Daily_OK None (Some (length puzzles_data))
                                (py_prefix puzzles_data per_page))))))
      else (d, Daily_Error 404))"

section \<open>Properties of the memory update\<close>

subsection \<open>The blocks of the update\<close>

lemma schedule_ok:
  "schedule now m =
     Inr (m\<lparr>next_review_date := Some (now + stability m * (- ln (9 / 10))),
            last_review_date := Some now, updated_at := now\<rparr>)"
  by (simp add: schedule_def calculate_next_interval_def math_log_def desired_retention_def)

lemma update_difficulty_fields [simp]:
  "stability (update_difficulty m rt tries hint) = stability m"
  "last_review_date (update_difficulty m rt tries hint) = last_review_date m"
  "next_review_date (update_difficulty m rt tries hint) = next_review_date m"
  "player_username (update_difficulty m rt tries hint) = player_username m"
  "puzzle_id (update_difficulty m rt tries hint) = puzzle_id m"
  by (simp_all add: update_difficulty_def Let_def)

lemma update_difficulty_stability_update:
  "update_difficulty (m\<lparr>stability := s\<rparr>) rt tries hint =
     (update_difficulty m rt tries hint)\<lparr>stability := s\<rparr>"
  by (simp add: update_difficulty_def Let_def)


lemma multiplier_unknown:
  "rt \<notin> {1, 2, 3, 4} \<Longrightarrow> dict_get stability_multiplier rt 1.5 = 1.5"
  by (simp add: dict_get_def stability_multiplier_def)

text \<open>The update, path by path: a first review, a memory whose stability is zero,
  a lapse, a clock behind the last review, and a review that is not a lapse.\<close>

lemma update_memory_first:
  assumes "last_review_date m = None"
  shows "update_memory now m rt slv tries hint =
         schedule now
           ((update_difficulty m rt tries hint)\<lparr>stability := dict_get initial_stability rt 1.0\<rparr>)"
  using assms
  by (simp add: update_memory_def elapsed_and_init_def update_stability_def
      update_difficulty_stability_update)

lemma update_memory_zero_stability:
  assumes "last_review_date m = Some t" "stability m = 0"
  shows "update_memory now m rt slv tries hint = Inl ZeroDivisionError"
  using assms
  by (simp add: update_memory_def elapsed_and_init_def calculate_retrievability_def float_div_def)

lemma elapsed_and_init_again:
  assumes "last_review_date m = Some t" "stability m \<noteq> 0"
  shows "elapsed_and_init now m rt = Inr (now - t, m)"
  using assms
  by (simp add: elapsed_and_init_def calculate_retrievability_def float_div_def)

lemma update_memory_lapse:
  assumes "last_review_date m = Some t" "stability m \<noteq> 0"
  shows "update_memory now m 1 slv tries hint =
         schedule now ((update_difficulty m 1 tries hint)\<lparr>stability := stability m * 0.2\<rparr>)"
  using assms
  by (simp add: update_memory_def elapsed_and_init_again update_stability_def
      dict_item_def stability_multiplier_def)

lemma sqrt_arg_sign: "((now - t) / max s (0.1::real) < 0) = (now < t)"
proof -
  have "0 < max s (0.1::real)" by simp
  then show ?thesis by (simp add: divide_less_0_iff del: max_less_iff_conj)
qed

lemma update_memory_clock_behind:
  assumes "last_review_date m = Some t" "stability m \<noteq> 0" "rt \<noteq> 1" "now < t"
  shows "update_memory now m rt slv tries hint = Inl ValueError"
  using assms
  by (simp add: update_memory_def elapsed_and_init_again update_stability_def
      math_sqrt_def sqrt_arg_sign Let_def)

lemma update_memory_success:
  assumes "last_review_date m = Some t" "stability m \<noteq> 0" "rt \<noteq> 1" "t \<le> now"
  shows "update_memory now m rt slv tries hint =
         schedule now ((update_difficulty m rt tries hint)
           \<lparr>stability := stability m *
              (dict_get stability_multiplier rt 1.5 *
               min 2.0 (sqrt ((now - t) / max (stability m) 0.1)))\<rparr>)"
  using assms
  by (simp add: update_memory_def elapsed_and_init_again update_stability_def
      math_sqrt_def sqrt_arg_sign Let_def)

subsection \<open>The method of the model is the service\<close>

lemma FSRSMemory_elapsed_and_init_eq:
  "FSRSMemory_elapsed_and_init now m rt = elapsed_and_init now m rt"
  by (cases "last_review_date m")
     (simp_all add: FSRSMemory_elapsed_and_init_def elapsed_and_init_def
        FSRSMemory_calculate_retrievability_def calculate_retrievability_def
        initial_stability_def Let_def)

lemma FSRSMemory_update_difficulty_eq:
  "FSRSMemory_update_difficulty m rt tries hint = update_difficulty m rt tries hint"
  unfolding FSRSMemory_update_difficulty_def update_difficulty_def
    difficulty_adjustments_def difficulty_adjustment_def tries_penalty_def hint_penalty_def
  by (rule refl)

lemma FSRSMemory_update_stability_eq:
  "FSRSMemory_update_stability m rt e = update_stability m rt e"
  unfolding FSRSMemory_update_stability_def update_stability_def
    stability_multipliers_def stability_multiplier_def
  by (rule refl)

lemma FSRSMemory_schedule_eq: "FSRSMemory_schedule now m = schedule now m"
  by (simp add: FSRSMemory_schedule_def schedule_def FSRSMemory_calculate_next_interval_def
      calculate_next_interval_def desired_retention_def)

lemma FSRSMemory_update_memory_eq:
  "FSRSMemory_update_memory now m rt slv tries hint = update_memory now m rt slv tries hint"
  unfolding FSRSMemory_update_memory_def update_memory_def FSRSMemory_elapsed_and_init_eq
    FSRSMemory_update_difficulty_eq FSRSMemory_update_stability_eq FSRSMemory_schedule_eq
  by (rule refl)

subsection \<open>Quality derivation\<close>

text \<open>
  Claim C6. \<open>determine_rating\<close> is defined on every attempt and answers, in this order
  of priority: 1 when the puzzle was not solved; else 2 when there were more than two
  tries or a hint was used; else 3 when there was at least one try; else 4. Its result
  is always one of 1, 2, 3, 4.
\<close>

theorem determine_rating_total:
  "(\<not> solved a \<longrightarrow> determine_rating a = 1) \<and>
   (solved a \<and> (tries_count a > 2 \<or> hint_used a) \<longrightarrow> determine_rating a = 2) \<and>
   (solved a \<and> \<not> (tries_count a > 2 \<or> hint_used a) \<and> tries_count a > 0
      \<longrightarrow> determine_rating a = 3) \<and>
   (solved a \<and> \<not> (tries_count a > 2 \<or> hint_used a) \<and> \<not> tries_count a > 0
      \<longrightarrow> determine_rating a = 4) \<and>
   determine_rating a \<in> {1, 2, 3, 4}"
  by (simp add: determine_rating_def)

theorem determine_rating_total_witness:
  "determine_rating \<lparr>attempt_puzzle = ''p'', attempt_player = ''u'', attempt_number = 1,
      tries_count = 1, hint_used = False, solved = True, rating = None, created_at = 0,
      completed_at = None\<rparr> = 3"
  using determine_rating_total [of "\<lparr>attempt_puzzle = ''p'', attempt_player = ''u'',
      attempt_number = 1, tries_count = 1, hint_used = False, solved = True, rating = None,
      created_at = 0, completed_at = None\<rparr>"]
  by simp

subsection \<open>First review\<close>

text \<open>
  Claim C5. For a new pair, whose memory is the default one (difficulty 2.0, stability
  0.5, never reviewed), one update with quality 3, no tries and no hint returns a memory
  with stability exactly 3.0 and difficulty exactly 1.95, in the service and in the
  method of the model alike.
\<close>

theorem first_review_good_exact:
  "\<exists>m'. update_memory now (default_memory t pid user) 3 slv 0 False = Inr m' \<and>
        FSRSMemory_update_memory now (default_memory t pid user) 3 slv 0 False = Inr m' \<and>
        stability m' = 3.0 \<and> difficulty m' = 1.95"
  by (simp add: FSRSMemory_update_memory_eq update_memory_first schedule_ok default_memory_def
      update_difficulty_def dict_get_def initial_stability_def difficulty_adjustment_def)

subsection \<open>Lapse\<close>

text \<open>
  Claim C4, as amended. For a memory reviewed before (its \<open>last_review_date\<close> is
  present) with positive stability \<open>S\<close>, an update with quality 1 made not before the
  last review returns a memory of stability \<open>S * 0.2\<close>, whatever the time elapsed, the
  tries and the hint: the spacing multiplier plays no part. The claim as written speaks
  of every memory reviewed before.
\<close>

theorem lapse_multiplies_stability:
  assumes "last_review_date m = Some t" "0 < stability m" "t \<le> now"
  shows "\<exists>m'. update_memory now m 1 slv tries hint = Inr m' \<and>
             FSRSMemory_update_memory now m 1 slv tries hint = Inr m' \<and>
             stability m' = stability m * 0.2"
  using assms
  by (simp add: FSRSMemory_update_memory_eq update_memory_lapse schedule_ok)

theorem lapse_multiplies_stability_witness:
  "\<exists>m'. update_memory 9 \<lparr>player_username = ''u'', puzzle_id = ''p'', difficulty = 2,
          stability = 5, last_review_date = Some 1, next_review_date = Some 2,
          updated_at = 1\<rparr> 1 False 4 True = Inr m' \<and> stability m' = 1"
  using lapse_multiplies_stability [of "\<lparr>player_username = ''u'', puzzle_id = ''p'',
          difficulty = 2, stability = 5, last_review_date = Some 1, next_review_date = Some 2,
          updated_at = 1\<rparr>" 1 9 False 4 True]
  by auto

text \<open>
  The counterexample to C4 as written: a stored memory that was reviewed before and
  whose stability is 0 (the row that a repeated review at one and the same time
  leaves behind, see C1). A lapse on it returns no memory at all: the retrievability
  computed at the head of the update divides by the stability.
\<close>

theorem lapse_on_zero_stability_counterexample:
  "update_memory 2
     \<lparr>player_username = ''u'', puzzle_id = ''p'', difficulty = 1.9, stability = 0,
      last_review_date = Some 1, next_review_date = Some 1, updated_at = 1\<rparr>
     1 False 1 False = Inl ZeroDivisionError \<and>
   FSRSMemory_update_memory 2
     \<lparr>player_username = ''u'', puzzle_id = ''p'', difficulty = 1.9, stability = 0,
      last_review_date = Some 1, next_review_date = Some 1, updated_at = 1\<rparr>
     1 False 1 False = Inl ZeroDivisionError"
  by (simp add: FSRSMemory_update_memory_eq update_memory_zero_stability)

subsection \<open>Interval and retrievability\<close>

text \<open>
  Claim C7. For a stability \<open>s > 0\<close> and a target retention \<open>r\<close> strictly between 0
  and 1, the next interval is computed without error, and the retrievability after
  exactly that interval is \<open>r\<close>: the interval formula inverts the decay formula. The
  same holds of the two methods of the model, for a memory of stability \<open>s\<close> last
  reviewed at \<open>t\<close> and read at \<open>t\<close> plus the interval.
\<close>

theorem interval_inverts_retrievability:
  assumes "0 < s" "0 < r" "r < 1"
  shows "\<exists>d. calculate_next_interval s r = Inr d \<and>
             calculate_retrievability s d = Inr r \<and>
             FSRSMemory_calculate_next_interval (m\<lparr>stability := s\<rparr>) r = Inr d \<and>
             FSRSMemory_calculate_retrievability (t + d)
               (m\<lparr>stability := s, last_review_date := Some t\<rparr>) = Inr r"
  using assms
  by (simp add: calculate_next_interval_def math_log_def calculate_retrievability_def
      FSRSMemory_calculate_next_interval_def FSRSMemory_calculate_retrievability_def
      float_div_def)

theorem interval_inverts_retrievability_witness:
  "\<exists>d. calculate_next_interval 3 0.9 = Inr d \<and> calculate_retrievability 3 d = Inr 0.9"
  using interval_inverts_retrievability [of 3 "0.9"] by auto

subsection \<open>Ratings outside 1..4\<close>

text \<open>
  Claim C9. The update accepts any integer rating. For a rating outside 1..4 it does
  not fail on account of the rating; the dictionary lookups fall back to their
  defaults: on a first review the stability becomes 1.0, the difficulty moves by 0
  (before the penalties and the clamp), and on a later review the stability is
  multiplied by 1.5 times the spacing multiplier. The update then sets both dates as
  usual. On a later review the memory is taken with non-zero stability and the clock not
  behind the last review, the two conditions under which any rating is processed.
\<close>

theorem unknown_rating_falls_back:
  assumes "rt \<notin> {1, 2, 3, 4}"
      and "\<And>t. last_review_date m = Some t \<Longrightarrow> stability m \<noteq> 0 \<and> t \<le> now"
  shows "\<exists>m'. update_memory now m rt slv tries hint = Inr m' \<and>
          FSRSMemory_update_memory now m rt slv tries hint = Inr m' \<and>
          stability m' =
            (case last_review_date m of
               None \<Rightarrow> 1.0
             | Some t \<Rightarrow>
                 stability m * (1.5 * min 2.0 (sqrt ((now - t) / max (stability m) 0.1)))) \<and>
          difficulty m' =
            max 1.0 (min 3.0 (difficulty m + 0
               + (if tries > 0 then 0.1 * real_of_int (min tries 3) else 0)
               + (if hint then 0.2 else 0))) \<and>
          last_review_date m' = Some now \<and>
          next_review_date m' = Some (now + stability m' * (- ln 0.9))"
proof (cases "last_review_date m")
  case None
  have "dict_get initial_stability rt 1.0 = 1.0" "dict_get difficulty_adjustment rt 0 = 0"
    using assms(1) by (simp_all add: dict_get_def initial_stability_def difficulty_adjustment_def)
  with None show ?thesis
    by (simp add: FSRSMemory_update_memory_eq update_memory_first schedule_ok
        update_difficulty_def tries_penalty_def hint_penalty_def Let_def)
next
  case (Some t)
  with assms(2) have st: "stability m \<noteq> 0" "t \<le> now" by simp_all
  from assms(1) have rt: "rt \<noteq> 1" by auto
  have "dict_get difficulty_adjustment rt 0 = 0"
    using assms(1) by (simp add: dict_get_def difficulty_adjustment_def)
  with Some multiplier_unknown [OF assms(1)] show ?thesis
    by (simp add: FSRSMemory_update_memory_eq update_memory_success [OF Some st(1) rt st(2)]
        schedule_ok update_difficulty_def tries_penalty_def hint_penalty_def Let_def)
qed

theorem unknown_rating_falls_back_witness:
  "\<exists>m'. update_memory 3 \<lparr>player_username = ''u'', puzzle_id = ''p'', difficulty = 2,
          stability = 2, last_review_date = Some 1, next_review_date = Some 2,
          updated_at = 1\<rparr> 7 True 0 False = Inr m' \<and> stability m' = 3 \<and> difficulty m' = 2"
  using unknown_rating_falls_back [of 7 "\<lparr>player_username = ''u'', puzzle_id = ''p'',
          difficulty = 2, stability = 2, last_review_date = Some 1, next_review_date = Some 2,
          updated_at = 1\<rparr>" 3 True 0 False]
  by auto

subsection \<open>Positive stability\<close>


text \<open>
  Claim C1. The update is to leave the stability strictly positive for every elapsed
  time \<open>\<ge> 0\<close>. The code does not: a new memory reviewed with quality 3 at time 1 has
  stability 3; reviewed again with quality 3 at the same time 1 (zero days elapsed) the
  spacing multiplier is \<open>sqrt 0 = 0\<close> and the stored stability is 0. The stored row
  then breaks the code's own next steps: its retrievability divides by zero, and so
  does every later update of it.
\<close>

theorem repeated_review_zeroes_stability:
  "update_memory 1 (default_memory 1 ''p'' ''u'') 3 True 0 False =
     Inr \<lparr>player_username = ''u'', puzzle_id = ''p'', difficulty = 1.95, stability = 3,
          last_review_date = Some 1, next_review_date = Some (1 + 3 * (- ln (9 / 10))),
          updated_at = 1\<rparr> \<and>
   update_memory 1
     \<lparr>player_username = ''u'', puzzle_id = ''p'', difficulty = 1.95, stability = 3,
      last_review_date = Some 1, next_review_date = Some (1 + 3 * (- ln (9 / 10))),
      updated_at = 1\<rparr> 3 True 0 False =
     Inr \<lparr>player_username = ''u'', puzzle_id = ''p'', difficulty = 1.9, stability = 0,
          last_review_date = Some 1, next_review_date = Some 1, updated_at = 1\<rparr> \<and>
   FSRSMemory_calculate_retrievability 1
     \<lparr>player_username = ''u'', puzzle_id = ''p'', difficulty = 1.9, stability = 0,
      last_review_date = Some 1, next_review_date = Some 1, updated_at = 1\<rparr> =
     Inl ZeroDivisionError \<and>
   update_memory 2
     \<lparr>player_username = ''u'', puzzle_id = ''p'', difficulty = 1.9, stability = 0,
      last_review_date = Some 1, next_review_date = Some 1, updated_at = 1\<rparr>
     3 True 0 False = Inl ZeroDivisionError"
  by (simp add: update_memory_first update_memory_success update_memory_zero_stability
      schedule_ok default_memory_def update_difficulty_def dict_get_def initial_stability_def
      difficulty_adjustment_def stability_multiplier_def
      FSRSMemory_calculate_retrievability_def float_div_def)

subsection \<open>The dates set by the update\<close>

text \<open>
  Claim C10. After an update the next review is to be strictly later than the last
  one. The code does not see to it: a memory first reviewed with quality 4 at time 5
  (stability 7) and reviewed again with quality 4 at the same time 5 gets stability 0,
  an interval of 0 days, and a next review equal to the last.
\<close>

theorem repeated_review_dates_coincide:
  "update_memory 5
     \<lparr>player_username = ''u'', puzzle_id = ''p'', difficulty = 1.9, stability = 7,
      last_review_date = Some 5, next_review_date = Some (5 + 7 * (- ln (9 / 10))),
      updated_at = 5\<rparr> 4 True 0 False =
     Inr \<lparr>player_username = ''u'', puzzle_id = ''p'', difficulty = 1.8, stability = 0,
          last_review_date = Some 5, next_review_date = Some 5, updated_at = 5\<rparr>"
  by (simp add: update_memory_success schedule_ok update_difficulty_def dict_get_def
      difficulty_adjustment_def stability_multiplier_def)

section \<open>Properties of the daily mix\<close>

subsection \<open>Quota exhausted\<close>

text \<open>
  Claim C8. For a known learner whose total of puzzles done today has reached the
  total limit, the daily mix answers with status 200 and an empty list of puzzles,
  whatever memories are due, whatever new puzzles exist and whatever the limit of new
  puzzles is; the only effect on the store is the creation of today's progress row.
\<close>

theorem quota_exhausted_returns_empty:
  assumes "username \<in> set (players d)"
      and "int_or (q_total_limit q) 50
             \<le> total_puzzles_done (snd (get_or_create_progress d username (date_of now)))"
  shows "daily_puzzles_get row_order shuffle now d username q =
           (fst (get_or_create_progress d username (date_of now)),
            Daily_OK (Some ''You've reached your daily puzzle limit!'') None [])"
  using assms
  by (cases "get_or_create_progress d username (date_of now)")
     (simp add: daily_puzzles_get_def Let_def)

theorem quota_exhausted_returns_empty_witness:
  "snd (daily_puzzles_get (\<lambda>xs. xs) (\<lambda>xs. xs) 3
     \<lparr>players = [''u''],
      puzzles = [\<lparr>puzzle_pk = ''a'', puzzle_owner = ''u''\<rparr>],
      attempts = [],
      memories = [\<lparr>player_username = ''u'', puzzle_id = ''a'', difficulty = 2,
                   stability = 1, last_review_date = Some 1, next_review_date = Some 2,
                   updated_at = 1\<rparr>],
      daily_progress = [\<lparr>progress_player = ''u'', progress_date = 3,
                         new_puzzles_seen = 20, reviews_done = 30\<rparr>]\<rparr>
     ''u'' \<lparr>q_new_limit = None, q_total_limit = Some 50, q_per_page = None\<rparr>) =
   Daily_OK (Some ''You've reached your daily puzzle limit!'') None []"
  using quota_exhausted_returns_empty [of "''u''"
     "\<lparr>players = [''u''],
      puzzles = [\<lparr>puzzle_pk = ''a'', puzzle_owner = ''u''\<rparr>],
      attempts = [],
      memories = [\<lparr>player_username = ''u'', puzzle_id = ''a'', difficulty = 2,
                   stability = 1, last_review_date = Some 1, next_review_date = Some 2,
                   updated_at = 1\<rparr>],
      daily_progress = [\<lparr>progress_player = ''u'', progress_date = 3,
                         new_puzzles_seen = 20, reviews_done = 30\<rparr>]\<rparr>"
     "\<lparr>q_new_limit = None, q_total_limit = Some 50, q_per_page = None\<rparr>" 3
     "\<lambda>xs. xs" "\<lambda>xs. xs"]
  by (simp add: get_or_create_progress_def date_of_def int_or_def total_puzzles_done_def)

subsection \<open>Review slots\<close>

lemma get_or_create_progress_tables [simp]:
  "players (fst (get_or_create_progress d u t)) = players d"
  "puzzles (fst (get_or_create_progress d u t)) = puzzles d"
  "attempts (fst (get_or_create_progress d u t)) = attempts d"
  "memories (fst (get_or_create_progress d u t)) = memories d"
  by (simp_all add: get_or_create_progress_def Let_def split: option.split)

text \<open>The puzzles of the \<^verbatim>\<open>id__in\<close> query are those that have a due memory of the
  learner, in the order the database chooses.\<close>

lemma due_review_puzzles_rows:
  "due_review_puzzles row_order now d u =
     row_order (filter (\<lambda>p. \<exists>m \<in> set (memories d).
                  player_username m = u \<and> is_due now m \<and> puzzle_id m = puzzle_pk p) (puzzles d))"
proof -
  have "filter (\<lambda>p. puzzle_pk p \<in> set (map puzzle_id
            (sort_key (\<lambda>m. case next_review_date m of None \<Rightarrow> 0 | Some t \<Rightarrow> t)
               (filter (\<lambda>m. player_username m = u \<and> is_due now m) (memories d))))) (puzzles d) =
        filter (\<lambda>p. \<exists>m \<in> set (memories d).
                  player_username m = u \<and> is_due now m \<and> puzzle_id m = puzzle_pk p) (puzzles d)"
    by (rule filter_cong, rule refl) force
  then show ?thesis by (simp add: due_review_puzzles_def Let_def)
qed

lemma new_puzzles_for_rows:
  assumes "n \<le> 9223372036854775807"
  shows "new_puzzles_for shuffle d u n =
     Inr (take (nat n) (shuffle (filter (\<lambda>p. puzzle_owner p = u \<and>
            puzzle_pk p \<notin> attempt_puzzle ` set (filter (\<lambda>a. attempt_player a = u) (attempts d)))
          (puzzles d))))"
  using assms by (simp add: new_puzzles_for_def Let_def)

lemma combine_puzzles_reviews:
  assumes "0 < tr"
  shows "combine_puzzles due new tr =
         take (min (length due) (nat tr)) due @ take (nat tr - min (length due) (nat tr)) new"
proof -
  have a: "nat (min (int (length due)) tr) = min (length due) (nat tr)"
    using assms by arith
  have b: "0 \<le> min (int (length due)) tr" using assms by simp
  have c: "0 \<le> min (int (length new)) (tr - min (int (length due)) tr)"
    using assms by arith
  have d: "take (nat (min (int (length new)) (tr - min (int (length due)) tr))) new =
           take (nat tr - min (length due) (nat tr)) new"
  proof -
    have "nat (min (int (length new)) (tr - min (int (length due)) tr)) =
          min (length new) (nat tr - min (length due) (nat tr))"
      using assms by arith
    then show ?thesis by (simp add: min_def)
  qed
  show ?thesis
    using a b c d by (simp add: combine_puzzles_def py_prefix_def Let_def)
qed

text \<open>
  Claim C3, as amended. For a known learner with quota left (and a limit of new
  puzzles that the database accepts), let \<open>due_rows\<close> be the learner's puzzles that
  have a memory whose \<open>next_review_date\<close> has passed, \<open>due_count\<close> their number, and
  \<open>due\<close> these rows in the order in which the database returns them. The daily mix
  answers with \<open>reviews_to_use = min (due_count, total_remaining)\<close> puzzles of \<open>due\<close>,
  each flagged as a review, followed by the new puzzles that fit in the room left.
  Every review slot holds a due puzzle. Which of the due puzzles fill the slots is the
  choice of the database, for any order it may take: retrievability plays no part.
\<close>

theorem daily_mix_reviews_first:
  assumes known: "username \<in> set (players d)"
      and quota: "total_puzzles_done (snd (get_or_create_progress d username (date_of now)))
                    < int_or (q_total_limit q) 50"
      and limit: "int_or (q_new_limit q) 25
                    - new_puzzles_seen (snd (get_or_create_progress d username (date_of now)))
                    \<le> 9223372036854775807"
      and order_set: "\<And>xs. set (row_order xs) = set xs"
      and order_length: "\<And>xs. length (row_order xs) = length xs"
  shows "let p0 = snd (get_or_create_progress d username (date_of now));
             total_remaining = int_or (q_total_limit q) 50 - total_puzzles_done p0;
             new_remaining = max 0 (int_or (q_new_limit q) 25 - new_puzzles_seen p0);
             due_rows = filter (\<lambda>p. \<exists>m \<in> set (memories d).
                           player_username m = username \<and> is_due now m \<and>
                           puzzle_id m = puzzle_pk p) (puzzles d);
             due = row_order due_rows;
             k = min (length due_rows) (nat total_remaining);
             new = take (nat new_remaining)
                     (shuffle (filter (\<lambda>p. puzzle_owner p = username \<and>
                        puzzle_pk p \<notin> attempt_puzzle `
                          set (filter (\<lambda>a. attempt_player a = username) (attempts d)))
                        (puzzles d)));
             new_part = take (nat total_remaining - k) new
         in snd (daily_puzzles_get row_order shuffle now d username q) =
              Daily_OK None (Some (k + length new_part))
                (py_prefix
                   (map (\<lambda>p. (p, False)) (take k due) @
                    map (\<lambda>p. (p, puzzle_pk p \<notin> puzzle_pk ` set due_rows)) new_part)
                   (int_or (q_per_page q) 10)) \<and>
            length (take k due) = k \<and>
            set (take k due) \<subseteq> set due_rows"
proof -
  define d1 where "d1 = fst (get_or_create_progress d username (date_of now))"
  define p0 where "p0 = snd (get_or_create_progress d username (date_of now))"
  have g: "get_or_create_progress d username (date_of now) = (d1, p0)"
    by (simp add: d1_def p0_def)
  have tabs: "memories d1 = memories d" "puzzles d1 = puzzles d" "attempts d1 = attempts d"
    using get_or_create_progress_tables [of d username "date_of now"] g by simp_all
  define tr where "tr = int_or (q_total_limit q) 50 - total_puzzles_done p0"
  define nr where "nr = max 0 (int_or (q_new_limit q) 25 - new_puzzles_seen p0)"
  define due_rows where "due_rows = filter (\<lambda>p. \<exists>m \<in> set (memories d).
                           player_username m = username \<and> is_due now m \<and>
                           puzzle_id m = puzzle_pk p) (puzzles d)"
  define due where "due = row_order due_rows"
  define k where "k = min (length due_rows) (nat tr)"
  define new where "new = take (nat nr)
                     (shuffle (filter (\<lambda>p. puzzle_owner p = username \<and>
                        puzzle_pk p \<notin> attempt_puzzle `
                          set (filter (\<lambda>a. attempt_player a = username) (attempts d)))
                        (puzzles d)))"
  define new_part where "new_part = take (nat tr - k) new"
  have tr_pos: "0 < tr" using quota g by (simp add: tr_def)
  have mx: "max 0 tr = tr" using tr_pos by simp
  have nle: "\<not> int_or (q_total_limit q) 50 \<le> total_puzzles_done p0"
    using quota g by simp
  have nr_le: "nr \<le> 9223372036854775807" using limit g by (simp add: nr_def)
  have due_eq: "due_review_puzzles row_order now d1 username = due"
    by (simp add: due_review_puzzles_rows tabs due_def due_rows_def)
  have new_eq: "new_puzzles_for shuffle d1 username nr = Inr new"
    by (simp add: new_puzzles_for_rows [OF nr_le] tabs new_def)
  have len_due: "length due = length due_rows" by (simp add: due_def order_length)
  have set_due: "set due = set due_rows" by (simp add: due_def order_set)
  have comb: "combine_puzzles due new tr = take k due @ new_part"
    using combine_puzzles_reviews [OF tr_pos, of due new]
    by (simp add: k_def new_part_def len_due)
  have flags: "map (\<lambda>p. (p, puzzle_pk p \<notin> puzzle_pk ` set due_rows)) (take k due) =
               map (\<lambda>p. (p, False)) (take k due)"
    by (rule map_cong) (auto dest: in_set_takeD simp: set_due)
  have len_take: "length (take k due) = k" by (simp add: k_def len_due)
  have mk: "min (length due) k = k" using len_take by simp
  have sub: "set (take k due) \<subseteq> set due_rows"
    using set_take_subset [of k due] by (simp add: set_due)
  have resp: "snd (daily_puzzles_get row_order shuffle now d username q) =
          Daily_OK None (Some (k + length new_part))
            (py_prefix
               (map (\<lambda>p. (p, False)) (take k due) @
                map (\<lambda>p. (p, puzzle_pk p \<notin> puzzle_pk ` set due_rows)) new_part)
               (int_or (q_per_page q) 10))"
    using known g nle
    by (simp add: daily_puzzles_get_def Let_def due_eq new_eq nr_def [symmetric]
        tr_def [symmetric] mx comb flags mk set_due)
  show ?thesis
    unfolding Let_def
    using resp len_take sub
    unfolding new_part_def new_def k_def due_def due_rows_def nr_def tr_def p0_def
    by (intro conjI)
qed

theorem daily_mix_reviews_first_witness:
  "snd (daily_puzzles_get (\<lambda>xs. xs) (\<lambda>xs. xs) 3
     \<lparr>players = [''u''],
      puzzles = [\<lparr>puzzle_pk = ''a'', puzzle_owner = ''u''\<rparr>,
                 \<lparr>puzzle_pk = ''b'', puzzle_owner = ''u''\<rparr>],
      attempts = [\<lparr>attempt_puzzle = ''a'', attempt_player = ''u'', attempt_number = 1,
                   tries_count = 1, hint_used = False, solved = True, rating = Some 3,
                   created_at = 1, completed_at = Some 1\<rparr>],
      memories = [\<lparr>player_username = ''u'', puzzle_id = ''a'', difficulty = 2,
                   stability = 1, last_review_date = Some 1, next_review_date = Some 2,
                   updated_at = 1\<rparr>],
      daily_progress = []\<rparr>
     ''u'' \<lparr>q_new_limit = None, q_total_limit = None, q_per_page = None\<rparr>) =
   Daily_OK None (Some 2)
     [(\<lparr>puzzle_pk = ''a'', puzzle_owner = ''u''\<rparr>, False),
      (\<lparr>puzzle_pk = ''b'', puzzle_owner = ''u''\<rparr>, True)]"
  using daily_mix_reviews_first [of "''u''"
     "\<lparr>players = [''u''],
      puzzles = [\<lparr>puzzle_pk = ''a'', puzzle_owner = ''u''\<rparr>,
                 \<lparr>puzzle_pk = ''b'', puzzle_owner = ''u''\<rparr>],
      attempts = [\<lparr>attempt_puzzle = ''a'', attempt_player = ''u'', attempt_number = 1,
                   tries_count = 1, hint_used = False, solved = True, rating = Some 3,
                   created_at = 1, completed_at = Some 1\<rparr>],
      memories = [\<lparr>player_username = ''u'', puzzle_id = ''a'', difficulty = 2,
                   stability = 1, last_review_date = Some 1, next_review_date = Some 2,
                   updated_at = 1\<rparr>],
      daily_progress = []\<rparr>"
     3 "\<lparr>q_new_limit = None, q_total_limit = None, q_per_page = None\<rparr>"
     "\<lambda>xs. xs" "\<lambda>xs. xs"]
  by (simp add: Let_def get_or_create_progress_def date_of_def int_or_def
      total_puzzles_done_def is_due_def py_prefix_def)

text \<open>
  The counterexample to C3 as written. Puzzle \<open>a\<close> was first reviewed at day 0 with
  quality 4 (stability 7) and puzzle \<open>b\<close> at day 2 with quality 1 (stability 0.5); at
  day 3 both are due, \<open>b\<close> has the lower retrievability (\<open>exp (- 2)\<close> against
  \<open>exp (- 3/7)\<close>) and comes first in the due selection of
  \<^verbatim>\<open>FSRSDuePuzzlesView\<close>, but with one slot left (\<open>total_limit = 1\<close>) the daily mix
  returns \<open>a\<close>. The database is taken to return the rows of an unordered query in the
  order of their insertion, which for these two puzzles is also the order of their
  primary keys and of their \<open>next_review_date\<close>.
\<close>

lemma interval_factor_bound: "- ln (9 / 10 :: real) \<le> 1 / 9"
proof -
  have "ln (10 / 9 :: real) \<le> 10 / 9 - 1" by (rule ln_le_minus_one) simp
  moreover have "ln (10 / 9 :: real) = - ln (9 / 10)" by (simp add: ln_div)
  ultimately show ?thesis by simp
qed

theorem daily_mix_not_by_retrievability_counterexample:
  "snd (daily_puzzles_get (\<lambda>xs. xs) (\<lambda>xs. xs) 3
     \<lparr>players = [''u''],
      puzzles = [\<lparr>puzzle_pk = ''a'', puzzle_owner = ''u''\<rparr>,
                 \<lparr>puzzle_pk = ''b'', puzzle_owner = ''u''\<rparr>],
      attempts =
        [\<lparr>attempt_puzzle = ''a'', attempt_player = ''u'', attempt_number = 1,
          tries_count = 0, hint_used = False, solved = True, rating = Some 4,
          created_at = 0, completed_at = Some 0\<rparr>,
         \<lparr>attempt_puzzle = ''b'', attempt_player = ''u'', attempt_number = 1,
          tries_count = 0, hint_used = False, solved = False, rating = Some 1,
          created_at = 2, completed_at = None\<rparr>],
      memories =
        [\<lparr>player_username = ''u'', puzzle_id = ''a'', difficulty = 1.9, stability = 7,
          last_review_date = Some 0, next_review_date = Some (0 + 7 * (- ln (9 / 10))),
          updated_at = 0\<rparr>,
         \<lparr>player_username = ''u'', puzzle_id = ''b'', difficulty = 2.1, stability = 0.5,
          last_review_date = Some 2, next_review_date = Some (2 + 0.5 * (- ln (9 / 10))),
          updated_at = 2\<rparr>],
      daily_progress =
        [\<lparr>progress_player = ''u'', progress_date = 0, new_puzzles_seen = 1, reviews_done = 0\<rparr>,
         \<lparr>progress_player = ''u'', progress_date = 2, new_puzzles_seen = 1, reviews_done = 0\<rparr>]\<rparr>
     ''u'' \<lparr>q_new_limit = None, q_total_limit = Some 1, q_per_page = None\<rparr>) =
   Daily_OK None (Some 1) [(\<lparr>puzzle_pk = ''a'', puzzle_owner = ''u''\<rparr>, False)] \<and>
   due_puzzles_get (\<lambda>xs. xs) 3
     \<lparr>players = [''u''],
      puzzles = [\<lparr>puzzle_pk = ''a'', puzzle_owner = ''u''\<rparr>,
                 \<lparr>puzzle_pk = ''b'', puzzle_owner = ''u''\<rparr>],
      attempts =
        [\<lparr>attempt_puzzle = ''a'', attempt_player = ''u'', attempt_number = 1,
          tries_count = 0, hint_used = False, solved = True, rating = Some 4,
          created_at = 0, completed_at = Some 0\<rparr>,
         \<lparr>attempt_puzzle = ''b'', attempt_player = ''u'', attempt_number = 1,
          tries_count = 0, hint_used = False, solved = False, rating = Some 1,
          created_at = 2, completed_at = None\<rparr>],
      memories =
        [\<lparr>player_username = ''u'', puzzle_id = ''a'', difficulty = 1.9, stability = 7,
          last_review_date = Some 0, next_review_date = Some (0 + 7 * (- ln (9 / 10))),
          updated_at = 0\<rparr>,
         \<lparr>player_username = ''u'', puzzle_id = ''b'', difficulty = 2.1, stability = 0.5,
          last_review_date = Some 2, next_review_date = Some (2 + 0.5 * (- ln (9 / 10))),
          updated_at = 2\<rparr>],
      daily_progress =
        [\<lparr>progress_player = ''u'', progress_date = 0, new_puzzles_seen = 1, reviews_done = 0\<rparr>,
         \<lparr>progress_player = ''u'', progress_date = 2, new_puzzles_seen = 1, reviews_done = 0\<rparr>]\<rparr>
     ''u'' =
   Due_OK 2
     [\<lparr>due_puzzle_id = ''b'', due_retrievability = exp (- 2), due_difficulty = 2.1,
       due_stability = 0.5, due_last_review_date = Some 2\<rparr>,
      \<lparr>due_puzzle_id = ''a'', due_retrievability = exp (- (3 / 7)), due_difficulty = 1.9,
       due_stability = 7, due_last_review_date = Some 0\<rparr>] \<and>
   exp (- 2) < (exp (- (3 / 7)) :: real)"
  using interval_factor_bound
  by (simp add: daily_puzzles_get_def due_puzzles_get_def Let_def get_or_create_progress_def
      date_of_def int_or_def total_puzzles_done_def due_review_puzzles_def is_due_def
      new_puzzles_for_def combine_puzzles_def py_prefix_def
      FSRSMemory_calculate_retrievability_def float_div_def)

section \<open>Properties of the attempt submission\<close>

subsection \<open>What each step of the view keeps\<close>

lemma save_memory_tables [simp]:
  "attempts (save_memory d m) = attempts d"
  "daily_progress (save_memory d m) = daily_progress d"
  by (simp_all add: save_memory_def split: option.split)

lemma save_progress_tables [simp]:
  "attempts (save_progress d p) = attempts d"
  "memories (save_progress d p) = memories d"
  by (simp_all add: save_progress_def split: option.split)













subsection \<open>The outcome of a submission\<close>






end
